theory Spec2Isabelle
  imports Main "HOL-Library.AList" "HOL-Library.Sublist"
begin

unbundle bit_operations_syntax

section \<open>Python values, errors and the standard library\<close>

text \<open>
  The values that reach the public attributes of a \<open>RiotAuth\<close> object and the bodies
  of the provider's answers are JSON values as \<open>json.loads\<close> builds them: \<open>None\<close>,
  \<open>bool\<close>, \<open>int\<close>, \<open>float\<close>, \<open>str\<close>, \<open>list\<close> and \<open>dict\<close>. A \<open>dict\<close> is
  the list of its items in insertion order, with distinct keys; lookup is \<open>map_of\<close>.
  The code never computes with a float, so a float is only told apart from the other
  values.
\<close>

datatype pyfloat = Finite int int | PosInf | NegInf | NaN

datatype json =
    JNull
  | JBool bool
  | JInt int
  | JFloat pyfloat
  | JStr string
  | JArr "json list"
  | JObj "(string \<times> json) list"

text \<open>
  Exceptions. \<open>py_error\<close> are the built-in and library exceptions the code can raise
  without naming them; \<open>ClientError\<close> stands for every \<open>aiohttp.ClientError\<close> (connection
  failure, a status of 400 or more under \<open>raise_for_status=True\<close>, a body of the wrong
  content type), \<open>BinasciiError\<close> for \<open>binascii.Error\<close>.

  Modelled from the spec: the module \<open>auth_exceptions\<close> is not among the source files.
  \<open>error\<close> lists the five exception classes \<open>auth.py\<close> imports from it and can raise
  (the base class \<open>RiotAuthError\<close> is never raised); following section 7 of the
  specification they are distinct kinds, none a subclass of another.
\<close>

datatype py_error =
    AttributeError | IndexError | KeyError | TypeError | ValueError | NameError
  | NotImplementedError | OSError | EOFError | BinasciiError | JSONDecodeError | ClientError

datatype error =
    RiotAuthenticationError
  | RiotMultifactorError
  | RiotRatelimitError
  | RiotUnknownErrorTypeError
  | RiotUnknownResponseTypeError
  | Python py_error

text \<open>\<open>obj[key]\<close> for a string key: only a \<open>dict\<close> can be subscripted by a string.\<close>

fun py_getitem :: "json \<Rightarrow> string \<Rightarrow> py_error + json" where
  "py_getitem (JObj d) k = (case map_of d k of None \<Rightarrow> Inl KeyError | Some v \<Rightarrow> Inr v)"
| "py_getitem _ k = Inl TypeError"

text \<open>\<open>d.get(key)\<close> on a \<open>dict\<close>: \<open>None\<close> for a missing key.\<close>

definition dict_get :: "(string \<times> json) list \<Rightarrow> string \<Rightarrow> json" where
  "dict_get d k = (case map_of d k of None \<Rightarrow> JNull | Some v \<Rightarrow> v)"

text \<open>
  \<open>dict(pairs)\<close> and \<open>d.update(pairs)\<close>: a key that is present keeps its place and takes
  the new value, a new key is appended; of two pairs with one key the later wins.
\<close>

definition dict_update :: "('k \<times> 'v) list \<Rightarrow> ('k \<times> 'v) list \<Rightarrow> ('k \<times> 'v) list" where
  "dict_update d pairs = fold (\<lambda>(k, v) acc. AList.update k v acc) pairs d"

definition py_dict :: "('k \<times> 'v) list \<Rightarrow> ('k \<times> 'v) list" where
  "py_dict pairs = dict_update [] pairs"

text \<open>\<open>s.split(c)\<close> for a one-character separator: never empty.\<close>

fun py_split :: "char \<Rightarrow> string \<Rightarrow> string list" where
  "py_split c [] = [[]]"
| "py_split c (x # xs) =
     (if x = c then [] # py_split c xs
      else (case py_split c xs of [] \<Rightarrow> [[x]] | p # ps \<Rightarrow> (x # p) # ps))"

text \<open>\<open>sep.join(parts)\<close>.\<close>

fun py_join :: "string \<Rightarrow> string list \<Rightarrow> string" where
  "py_join sep [] = []"
| "py_join sep [x] = x"
| "py_join sep (x # y # ys) = x @ sep @ py_join sep (y # ys)"

subsection \<open>\<open>base64.urlsafe_b64decode\<close>\<close>

text \<open>
  \<open>urlsafe_b64decode(s)\<close> for a \<open>str\<close>: \<open>s.encode('ascii')\<close> (a \<open>ValueError\<close> on a
  character beyond ASCII), then \<open>-\<close> and \<open>_\<close> are translated to \<open>+\<close> and \<open>/\<close>, then
  \<open>binascii.a2b_base64\<close> runs in its default, non-strict mode. That decoder
  (CPython 3.11, \<open>Modules/binascii.c\<close>) skips every character outside the alphabet,
  counts padding only from the third position of a quad on, stops at the first complete
  padding and fails only when characters of an unfinished quad are left at the end.
\<close>

definition b64_alphabet :: string where
  "b64_alphabet = ''ABCDEFGHIJKLMNOPQRSTUVWXYZabcdefghijklmnopqrstuvwxyz0123456789+/''"

fun index_of :: "'a \<Rightarrow> 'a list \<Rightarrow> nat option" where
  "index_of x [] = None"
| "index_of x (y # ys) = (if x = y then Some 0 else map_option Suc (index_of x ys))"

definition table_a2b_base64 :: "char \<Rightarrow> nat option" where
  "table_a2b_base64 c = index_of c b64_alphabet"

text \<open>
  The loop of \<open>a2b_base64\<close>, with its variables \<open>quad_pos\<close>, \<open>leftchar\<close>, \<open>pads\<close> and the
  bytes written so far. The C code builds a byte as \<open>(leftchar << k) | (this_ch >> j)\<close>;
  the low \<open>k\<close> bits of the shifted operand are zero and the other is below \<open>2 ^ k\<close>, so
  the bitwise or is a sum here, and \<open>char_of\<close> keeps the low eight bits.
\<close>

fun a2b_loop :: "nat \<Rightarrow> nat \<Rightarrow> nat \<Rightarrow> string \<Rightarrow> string \<Rightarrow> py_error + string" where
  "a2b_loop quad_pos leftchar pads bin [] =
     (if quad_pos \<noteq> 0 then Inl BinasciiError else Inr bin)"
| "a2b_loop quad_pos leftchar pads bin (this_ch # rest) =
     (if this_ch = CHR ''='' then
        (if 2 \<le> quad_pos \<and> 4 \<le> quad_pos + (pads + 1) then Inr bin
         else a2b_loop quad_pos leftchar (if 2 \<le> quad_pos then pads + 1 else pads) bin rest)
      else
        (case table_a2b_base64 this_ch of
           None \<Rightarrow> a2b_loop quad_pos leftchar pads bin rest
         | Some d \<Rightarrow>
             (if quad_pos = 0 then a2b_loop 1 d 0 bin rest
              else if quad_pos = 1 then
                a2b_loop 2 (d mod 16) 0 (bin @ [char_of (leftchar * 4 + d div 16)]) rest
              else if quad_pos = 2 then
                a2b_loop 3 (d mod 4) 0 (bin @ [char_of (leftchar * 16 + d div 4)]) rest
              else
                a2b_loop 0 0 0 (bin @ [char_of (leftchar * 64 + d)]) rest)))"

definition a2b_base64 :: "string \<Rightarrow> py_error + string" where
  "a2b_base64 s = a2b_loop 0 0 0 [] s"

definition urlsafe_translate :: "char \<Rightarrow> char" where
  "urlsafe_translate c =
     (if c = CHR ''-'' then CHR ''+'' else if c = CHR ''_'' then CHR ''/'' else c)"

definition urlsafe_b64decode :: "string \<Rightarrow> py_error + string" where
  "urlsafe_b64decode s =
     (if list_ex (\<lambda>c. 128 \<le> (of_char c :: nat)) s then Inl ValueError
      else a2b_base64 (map urlsafe_translate s))"

text \<open>
  The standard base64 encoding with padding (RFC 4648, section 4), which is what
  \<open>base64.b64encode\<close> writes: the reference against which a "valid padded standard
  base64" segment is stated.
\<close>

definition b64_digit :: "nat \<Rightarrow> char" where
  "b64_digit i = b64_alphabet ! i"

fun std_b64encode :: "string \<Rightarrow> string" where
  "std_b64encode [] = []"
| "std_b64encode [a] =
     [b64_digit (of_char a div 4), b64_digit ((of_char a mod 4) * 16), CHR ''='', CHR ''='']"
| "std_b64encode [a, b] =
     [b64_digit (of_char a div 4),
      b64_digit ((of_char a mod 4) * 16 + of_char b div 16),
      b64_digit ((of_char b mod 16) * 4), CHR ''='']"
| "std_b64encode (a # b # c # rest) =
     [b64_digit (of_char a div 4),
      b64_digit ((of_char a mod 4) * 16 + of_char b div 16),
      b64_digit ((of_char b mod 16) * 4 + of_char c div 64),
      b64_digit (of_char c mod 64)] @ std_b64encode rest"

subsection \<open>Library calls taken as parameters\<close>

text \<open>
  Two library computations are parameters of the model, so that every theorem below
  holds for whatever they return:
  \<^item> \<open>json_loads\<close> is \<open>json.loads\<close> on the decoded bytes, \<open>None\<close> when it raises;
  \<^item> \<open>parse_qsl_of_urlsplit uri mode\<close> is \<open>parse_qsl(getattr(urlsplit(uri), mode))\<close>,
    the list of pairs or the exception of \<open>urllib.parse\<close>.
\<close>

record pylib =
  json_loads :: "string \<Rightarrow> json option"
  parse_qsl_of_urlsplit :: "json \<Rightarrow> json \<Rightarrow> py_error + (string \<times> string) list"

text \<open>
  A library known at finitely many inputs, for evaluating the model on concrete runs:
  the listed inputs answer as CPython 3.11 does, every other input raises.
\<close>

definition lib_table ::
  "(string \<times> json) list \<Rightarrow> ((json \<times> json) \<times> (string \<times> string) list) list \<Rightarrow> pylib" where
  "lib_table js us =
     \<lparr> json_loads = map_of js,
       parse_qsl_of_urlsplit =
         (\<lambda>uri mode. case map_of us (uri, mode) of None \<Rightarrow> Inl ValueError | Some r \<Rightarrow> Inr r) \<rparr>"

section \<open>The TLS profile\<close>

datatype tls_version = SSLv3 | TLSv1 | TLSv1_1 | TLSv1_2 | TLSv1_3

text \<open>
  An \<open>ssl.SSLContext\<close> as far as the builder touches it: what the context offers to a
  peer. \<open>ciphersuites\<close> are its TLS 1.3 suites, \<open>cipher_list\<close> the suites of the older
  versions, \<open>sigalgs\<close> its signature algorithms, each in order of preference.
\<close>

record ssl_ctx =
  minimum_version :: tls_version
  alpn_protocols :: "string list"
  options :: int
  ciphersuites :: "string list"
  cipher_list :: "string list"
  sigalgs :: "string list"

text \<open>
  The native library \<open>ctypes.CDLL\<close> loads is a parameter. A symbol the library does not
  export is \<open>None\<close> (looking it up is an \<open>AttributeError\<close>). A call is given the
  colon-separated list and answers with the entries the context offers afterwards, or
  with \<open>None\<close> when it returns 0 and leaves the context as it was; which entries a
  library keeps depends on its version and build. \<open>SSL_CTX_ctrl\<close> is given the command
  and its numeric argument first. The model takes the address the code computes from
  \<open>id(ssl_ctx)\<close> to be the address of the context's native structure.
\<close>

record libssl =
  SSL_CTX_set_ciphersuites :: "(string \<Rightarrow> string list option) option"
  SSL_CTX_set_cipher_list :: "(string \<Rightarrow> string list option) option"
  SSL_CTX_ctrl :: "(nat \<Rightarrow> nat \<Rightarrow> string \<Rightarrow> string list option) option"

text \<open>
  The host: \<open>sys.platform\<close>, the context \<open>ssl.create_default_context()\<close> returns,
  \<open>ssl._ssl.__file__\<close> (\<open>None\<close> when the module \<open>_ssl\<close> is built into the interpreter
  and has no such attribute) and \<open>ctypes.CDLL\<close> (\<open>None\<close> when the library does not load:
  \<open>OSError\<close>).
\<close>

record platform =
  sys_platform :: string
  default_context :: ssl_ctx
  ssl_module_file :: "string option"
  cdll :: "string \<Rightarrow> libssl option"

definition CIPHERS13 :: string where
  "CIPHERS13 = py_join '':''
     [''TLS_CHACHA20_POLY1305_SHA256'',
      ''TLS_AES_128_GCM_SHA256'',
      ''TLS_AES_256_GCM_SHA384'']"

definition CIPHERS :: string where
  "CIPHERS = py_join '':''
     [''ECDHE-ECDSA-CHACHA20-POLY1305'',
      ''ECDHE-RSA-CHACHA20-POLY1305'',
      ''ECDHE-ECDSA-AES128-GCM-SHA256'',
      ''ECDHE-RSA-AES128-GCM-SHA256'',
      ''ECDHE-ECDSA-AES256-GCM-SHA384'',
      ''ECDHE-RSA-AES256-GCM-SHA384'',
      ''ECDHE-ECDSA-AES128-SHA'',
      ''ECDHE-RSA-AES128-SHA'',
      ''ECDHE-ECDSA-AES256-SHA'',
      ''ECDHE-RSA-AES256-SHA'',
      ''AES128-GCM-SHA256'',
      ''AES256-GCM-SHA384'',
      ''AES128-SHA'',
      ''AES256-SHA'',
      ''DES-CBC3-SHA'']"

definition SIGALGS :: string where
  "SIGALGS = py_join '':''
     [''ecdsa_secp256r1_sha256'',
      ''rsa_pss_rsae_sha256'',
      ''rsa_pkcs1_sha256'',
      ''ecdsa_secp384r1_sha384'',
      ''rsa_pss_rsae_sha384'',
      ''rsa_pkcs1_sha384'',
      ''rsa_pss_rsae_sha512'',
      ''rsa_pkcs1_sha512'',
      ''rsa_pkcs1_sha1'']"

text \<open>
  The return code of a native call is ignored: when the call fails the context keeps the
  list it had.
\<close>

definition ignoring_return_code :: "string list option \<Rightarrow> string list \<Rightarrow> string list" where
  "ignoring_return_code answer before = (case answer of None \<Rightarrow> before | Some kept \<Rightarrow> kept)"

text \<open>
  Lines 109 to 120 of \<open>create_riot_auth_ssl_ctx\<close>: the three settings made through the
  \<open>ssl\<close> module, then the three native calls, each after its symbol is looked up.
\<close>

definition configure_ssl_ctx :: "libssl \<Rightarrow> ssl_ctx \<Rightarrow> error + ssl_ctx" where
  "configure_ssl_ctx lib c =
     (let c1 = c\<lparr> minimum_version := TLSv1,
                   alpn_protocols := [''http/1.1''],
                   options := options c OR push_bit 19 1 \<rparr>
      in case SSL_CTX_set_ciphersuites lib of
           None \<Rightarrow> Inl (Python AttributeError)
         | Some set_ciphersuites \<Rightarrow>
             (let c2 = c1\<lparr> ciphersuites :=
                           ignoring_return_code (set_ciphersuites CIPHERS13) (ciphersuites c1) \<rparr>
              in case SSL_CTX_set_cipher_list lib of
                   None \<Rightarrow> Inl (Python AttributeError)
                 | Some set_cipher_list \<Rightarrow>
                     (let c3 = c2\<lparr> cipher_list :=
                                   ignoring_return_code (set_cipher_list CIPHERS) (cipher_list c2) \<rparr>
                      in case SSL_CTX_ctrl lib of
                           None \<Rightarrow> Inl (Python AttributeError)
                         | Some ctrl \<Rightarrow>
                             Inr (c3\<lparr> sigalgs :=
                                    ignoring_return_code (ctrl 98 0 SIGALGS) (sigalgs c3) \<rparr>))))"

text \<open>
  \<open>create_riot_auth_ssl_ctx\<close>: the library is chosen by the platform; reading
  \<open>ssl._ssl.__file__\<close> and loading the library can both raise.
\<close>

definition create_riot_auth_ssl_ctx :: "platform \<Rightarrow> error + ssl_ctx" where
  "create_riot_auth_ssl_ctx pf =
     (let ssl_ctx = default_context pf in
      if prefix ''win32'' (sys_platform pf) then
        (case cdll pf ''libssl-1_1.dll'' of
           None \<Rightarrow> Inl (Python OSError)
         | Some lib \<Rightarrow> configure_ssl_ctx lib ssl_ctx)
      else if prefix ''linux'' (sys_platform pf) \<or> prefix ''darwin'' (sys_platform pf) then
        (case ssl_module_file pf of
           None \<Rightarrow> Inl (Python AttributeError)
         | Some file \<Rightarrow>
             (case cdll pf file of
                None \<Rightarrow> Inl (Python OSError)
              | Some lib \<Rightarrow> configure_ssl_ctx lib ssl_ctx))
      else Inl (Python NotImplementedError))"

section \<open>The session object\<close>

text \<open>
  A \<open>RiotAuth\<close> instance is its \<open>__dict__\<close>. The two private attributes \<open>__init__\<close> sets
  have their own types (an SSL context, a cookie jar: the cookies by name); \<open>attrs\<close> holds
  every other attribute in insertion order, which are the seven token fields and
  \<open>accdict\<close> after \<open>__init__\<close>.
\<close>

type_synonym cookies = "(string \<times> string) list"

record riot_auth =
  auth_ssl_ctx :: ssl_ctx
  cookie_jar :: cookies
  attrs :: "(string \<times> json) list"

definition RiotAuth_init :: "platform \<Rightarrow> error + riot_auth" where
  "RiotAuth_init pf =
     (case create_riot_auth_ssl_ctx pf of
        Inl e \<Rightarrow> Inl e
      | Inr ctx \<Rightarrow>
          Inr \<lparr> auth_ssl_ctx = ctx,
                cookie_jar = [],
                attrs = [(''access_token'', JNull), (''scope'', JNull), (''id_token'', JNull),
                         (''token_type'', JNull), (''expires_at'', JInt 0),
                         (''user_id'', JNull), (''entitlements_token'', JNull),
                         (''accdict'', JNull)] \<rparr>)"

text \<open>The keys of \<open>self.__dict__\<close>, and reading an attribute that must exist.\<close>

definition dict_keys :: "riot_auth \<Rightarrow> string list" where
  "dict_keys self = ''_auth_ssl_ctx'' # ''_cookie_jar'' # map fst (attrs self)"

definition getattr :: "riot_auth \<Rightarrow> string \<Rightarrow> py_error + json" where
  "getattr self name =
     (case map_of (attrs self) name of None \<Rightarrow> Inl AttributeError | Some v \<Rightarrow> Inr v)"

section \<open>The token extractor\<close>

text \<open>
  The parameter \<open>key_attr_pairs\<close> of \<open>__update\<close> is a sequence of pairs by default, and a
  string when the redirect URI carries a parameter of that name.
\<close>

datatype key_attr_pairs = Pairs "(string \<times> string) list" | PairsStr string

definition default_key_attr_pairs :: key_attr_pairs where
  "default_key_attr_pairs = Pairs [(''sub'', ''user_id''), (''exp'', ''expires_at'')]"

text \<open>
  \<open>__get_keys_from_access_token\<close>. \<open>self.access_token.split\<close> exists only on a \<open>str\<close>;
  the comprehension unpacks each element of \<open>key_attr_pairs\<close> into two names (a
  character of a string cannot be unpacked: \<open>ValueError\<close>) and calls \<open>temp_dict.get\<close>,
  which only a \<open>dict\<close> has.
\<close>

definition comprehension :: "json \<Rightarrow> key_attr_pairs \<Rightarrow> py_error + (string \<times> json) list" where
  "comprehension temp_dict kap =
     (case kap of
        PairsStr s \<Rightarrow> (if s = [] then Inr [] else Inl ValueError)
      | Pairs ps \<Rightarrow>
          (if ps = [] then Inr []
           else (case temp_dict of
                   JObj d \<Rightarrow> Inr (map (\<lambda>(key, attr). (attr, dict_get d key)) ps)
                 | _ \<Rightarrow> Inl AttributeError)))"

definition RiotAuth_get_keys_from_access_token ::
  "pylib \<Rightarrow> riot_auth \<Rightarrow> key_attr_pairs \<Rightarrow> py_error + (string \<times> json) list" where
  "RiotAuth_get_keys_from_access_token lib self kap =
     (case getattr self ''access_token'' of
        Inl e \<Rightarrow> Inl e
      | Inr (JStr access_token) \<Rightarrow>
          (case py_split CHR ''.'' access_token of
             _ # payload # _ \<Rightarrow>
               (case urlsafe_b64decode (payload @ ''==='') of
                  Inl e \<Rightarrow> Inl e
                | Inr decoded \<Rightarrow>
                    (case json_loads lib decoded of
                       None \<Rightarrow> Inl JSONDecodeError
                     | Some temp_dict \<Rightarrow> comprehension temp_dict kap))
           | _ \<Rightarrow> Inl IndexError)
      | Inr _ \<Rightarrow> Inl AttributeError)"

section \<open>Merging into the session\<close>

text \<open>
  \<open>__update\<close>. \<open>predefined_keys\<close> is computed once, from the keys of \<open>__dict__\<close> whose
  first character is not an underscore (\<open>key[0]\<close> of an empty key is an \<open>IndexError\<close>).
  \<open>self.__dict__.update\<close> is given only pairs whose key is in that list, so it replaces
  values of attributes in \<open>attrs\<close> and never adds a key. When the token extractor
  raises, the first update has already been made.
\<close>

definition predefined_keys :: "riot_auth \<Rightarrow> py_error + string list" where
  "predefined_keys self =
     (if [] \<in> set (dict_keys self) then Inl IndexError
      else Inr (filter (\<lambda>key. hd key \<noteq> CHR ''_'') (dict_keys self)))"

definition update_predefined :: "riot_auth \<Rightarrow> string list \<Rightarrow> (string \<times> json) list \<Rightarrow> riot_auth" where
  "update_predefined self keys pairs =
     self\<lparr> attrs := dict_update (attrs self) (filter (\<lambda>(key, val). key \<in> set keys) pairs) \<rparr>"

definition RiotAuth_update ::
  "pylib \<Rightarrow> riot_auth \<Rightarrow> bool \<Rightarrow> key_attr_pairs \<Rightarrow> (string \<times> json) list
     \<Rightarrow> (py_error + unit) \<times> riot_auth" where
  "RiotAuth_update lib self extract_jwt kap kwargs =
     (case predefined_keys self of
        Inl e \<Rightarrow> (Inl e, self)
      | Inr keys \<Rightarrow>
          (let self1 = update_predefined self keys kwargs in
           if extract_jwt then
             (case RiotAuth_get_keys_from_access_token lib self1 kap of
                Inl e \<Rightarrow> (Inl e, self1)
              | Inr additional_data \<Rightarrow> (Inr (), update_predefined self1 keys additional_data))
           else (Inr (), self1)))"

text \<open>
  The call \<open>self.__update(extract_jwt=True, **data)\<close> of \<open>__set_tokens_from_uri\<close>, where
  \<open>data\<close> maps strings to strings. A key of \<open>data\<close> that is also given in the call
  (\<open>self\<close>, \<open>extract_jwt\<close>) is a \<open>TypeError\<close> (multiple values for one argument); the key
  \<open>key_attr_pairs\<close> binds the parameter of that name; every other key goes to \<open>kwargs\<close>.
\<close>

definition call_update ::
  "pylib \<Rightarrow> riot_auth \<Rightarrow> (string \<times> string) list \<Rightarrow> (py_error + unit) \<times> riot_auth" where
  "call_update lib self data =
     (if ''self'' \<in> set (map fst data) \<or> ''extract_jwt'' \<in> set (map fst data)
      then (Inl TypeError, self)
      else RiotAuth_update lib self True
             (case map_of data ''key_attr_pairs'' of
                None \<Rightarrow> default_key_attr_pairs
              | Some v \<Rightarrow> PairsStr v)
             (map (\<lambda>(key, val). (key, JStr val))
                (filter (\<lambda>(key, val). key \<noteq> ''key_attr_pairs'') data)))"

definition and_then :: "'e + 'a \<Rightarrow> ('a \<Rightarrow> 'e + 'b) \<Rightarrow> 'e + 'b" where
  "and_then r f = (case r of Inl e \<Rightarrow> Inl e | Inr x \<Rightarrow> f x)"

text \<open>
  \<open>__set_tokens_from_uri\<close>. Its lines 155 to 159 read the mode and the URI out of the
  answer, take the named component of the split URI and build \<open>dict(parse_qsl(result))\<close>;
  line 160 gives that dictionary to \<open>__update\<close>.
\<close>

definition uri_data :: "pylib \<Rightarrow> json \<Rightarrow> py_error + (string \<times> string) list" where
  "uri_data lib data =
     and_then (and_then (py_getitem data ''response'') (\<lambda>r. py_getitem r ''mode'')) (\<lambda>mode.
     and_then (and_then (and_then (py_getitem data ''response'')
                           (\<lambda>r. py_getitem r ''parameters''))
                 (\<lambda>ps. py_getitem ps ''uri'')) (\<lambda>uri.
     and_then (parse_qsl_of_urlsplit lib uri mode) (\<lambda>result.
       Inr (py_dict result))))"

definition RiotAuth_set_tokens_from_uri ::
  "pylib \<Rightarrow> riot_auth \<Rightarrow> json \<Rightarrow> (py_error + unit) \<times> riot_auth" where
  "RiotAuth_set_tokens_from_uri lib self data =
     (case uri_data lib data of
        Inl e \<Rightarrow> (Inl e, self)
      | Inr data1 \<Rightarrow> call_update lib self data1)"

section \<open>The provider and the rest of the world\<close>

text \<open>
  The provider is scripted: each request takes the next answer, the cookies it sets and
  its body. \<open>ReplyError\<close> is an answer that makes \<open>aiohttp\<close> raise (a status of 400 or
  more, a wrong content type), \<open>ReplyNotJson\<close> a body \<open>r.json()\<close> cannot parse; no answer
  left is a connection failure. A request is logged with the cookies the jar holds when
  it is sent. The header \<open>Authorization\<close> is kept as the two values its f-string
  formats.
\<close>

datatype reply = ReplyJson json | ReplyNotJson | ReplyError

datatype header = Lit string | TokenTypeAndAccessToken json json

record request =
  req_method :: string
  req_url :: string
  req_json :: json
  req_headers :: "(string \<times> header) list"
  req_cookies :: cookies

datatype file_data = Pickle cookies | JsonDump json

record world =
  responses :: "(cookies \<times> reply) list"
  requests :: "request list"
  stdin :: "string list"
  nonce :: string
  writable :: "string \<Rightarrow> bool"
  files :: "(string \<times> file_data) list"

definition send ::
  "string \<Rightarrow> string \<Rightarrow> json \<Rightarrow> (string \<times> header) list \<Rightarrow> riot_auth \<Rightarrow> world
     \<Rightarrow> (py_error + json) \<times> riot_auth \<times> world" where
  "send method url body headers self w =
     (let w1 = w\<lparr> requests := requests w @
                  [\<lparr> req_method = method, req_url = url, req_json = body,
                     req_headers = headers, req_cookies = cookie_jar self \<rparr>] \<rparr>
      in case responses w1 of
           [] \<Rightarrow> (Inl ClientError, self, w1)
         | (set_cookie, reply) # rest \<Rightarrow>
             (let self1 = self\<lparr> cookie_jar := dict_update (cookie_jar self) set_cookie \<rparr>;
                  w2 = w1\<lparr> responses := rest \<rparr>
              in case reply of
                   ReplyJson j \<Rightarrow> (Inr j, self1, w2)
                 | ReplyNotJson \<Rightarrow> (Inl JSONDecodeError, self1, w2)
                 | ReplyError \<Rightarrow> (Inl ClientError, self1, w2)))"

section \<open>The negotiation engine\<close>

definition RIOT_CLIENT_USER_AGENT :: "string \<Rightarrow> string" where
  "RIOT_CLIENT_USER_AGENT app =
     ''RiotClient/62.0.1.4852117.4789131 '' @ app @ '' (Windows;10;;Professional, x64)''"

definition authorization_url :: string where
  "authorization_url = ''https://auth.riotgames.com/api/v1/authorization''"

definition entitlements_url :: string where
  "entitlements_url = ''https://entitlements.auth.riotgames.com/api/token/v1''"

definition auth_headers :: "(string \<times> header) list" where
  "auth_headers =
     [(''Accept-Encoding'', Lit ''deflate, gzip, zstd''),
      (''user-agent'', Lit (RIOT_CLIENT_USER_AGENT ''rso-auth'')),
      (''Cache-Control'', Lit ''no-cache''),
      (''Accept'', Lit ''application/json'')]"

definition begin_body :: "string \<Rightarrow> bool \<Rightarrow> json" where
  "begin_body nonce_value use_query_response_mode =
     JObj ([(''acr_values'', JStr []),
            (''claims'', JStr []),
            (''client_id'', JStr ''riot-client''),
            (''code_challenge'', JStr []),
            (''code_challenge_method'', JStr []),
            (''nonce'', JStr nonce_value),
            (''redirect_uri'', JStr ''http://localhost/redirect''),
            (''response_type'', JStr ''token id_token''),
            (''scope'', JStr ''openid link ban lol_region account'')]
           @ (if use_query_response_mode then [(''response_mode'', JStr ''query'')] else []))"

definition auth_body :: "string \<Rightarrow> string \<Rightarrow> json" where
  "auth_body username password =
     JObj [(''language'', JStr ''en_US''),
           (''password'', JStr password),
           (''region'', JNull),
           (''remember'', JBool True),
           (''type'', JStr ''auth''),
           (''username'', JStr username)]"

definition multifactor_body :: "string \<Rightarrow> json" where
  "multifactor_body code =
     JObj [(''type'', JStr ''multifactor''),
           (''rememberDevice'', JStr ''true''),
           (''code'', JStr code)]"

text \<open>
  The \<open>multifactor\<close> branch: \<open>input\<close> reads a line (\<open>EOFError\<close> when there is none), the
  code is sent, and \<open>data.keys()\<close> needs a \<open>dict\<close>. The name
  \<open>RiotMultifactorAttemptError\<close> is neither imported nor defined in the module, so
  evaluating it for the \<open>raise\<close> is a \<open>NameError\<close>.
\<close>

definition multifactor ::
  "riot_auth \<Rightarrow> world \<Rightarrow> (error + json) \<times> riot_auth \<times> world" where
  "multifactor self w =
     (case stdin w of
        [] \<Rightarrow> (Inl (Python EOFError), self, w)
      | multifactorCode # lines \<Rightarrow>
          (case send ''PUT'' authorization_url (multifactor_body multifactorCode) auth_headers
                  self (w\<lparr> stdin := lines \<rparr>) of
             (Inl e, self1, w1) \<Rightarrow> (Inl (Python e), self1, w1)
           | (Inr data, self1, w1) \<Rightarrow>
               (case data of
                  JObj d \<Rightarrow>
                    (if ''error'' \<in> set (map fst d)
                        \<and> dict_get d ''error'' = JStr ''multifactor_attempt_failed''
                     then (Inl (Python NameError), self1, w1)
                     else (Inr data, self1, w1))
                | _ \<Rightarrow> (Inl (Python AttributeError), self1, w1))))"

text \<open>
  The region \<open>Authenticate\<close>: the credentials are sent and the answer's \<open>type\<close> decides.
  It returns the \<open>data\<close> the token step will read.
\<close>

definition authenticate ::
  "riot_auth \<Rightarrow> string \<Rightarrow> string \<Rightarrow> world \<Rightarrow> (error + json) \<times> riot_auth \<times> world" where
  "authenticate self username password w =
     (case send ''PUT'' authorization_url (auth_body username password) auth_headers self w of
        (Inl e, self1, w1) \<Rightarrow> (Inl (Python e), self1, w1)
      | (Inr data, self1, w1) \<Rightarrow>
          (case py_getitem data ''type'' of
             Inl e \<Rightarrow> (Inl (Python e), self1, w1)
           | Inr resp_type \<Rightarrow>
               (if resp_type = JStr ''response'' then (Inr data, self1, w1)
                else if resp_type = JStr ''auth'' then
                  (let err = (case data of JObj d \<Rightarrow> dict_get d ''error'' | _ \<Rightarrow> JNull) in
                   if err = JStr ''auth_failure'' then (Inl RiotAuthenticationError, self1, w1)
                   else if err = JStr ''rate_limited'' then (Inl RiotRatelimitError, self1, w1)
                   else (Inl RiotUnknownErrorTypeError, self1, w1))
                else if resp_type = JStr ''multifactor'' then multifactor self1 w1
                else (Inl RiotUnknownResponseTypeError, self1, w1))))"

text \<open>
  The rest of \<open>authorize\<close>, from the token step on. The session's cookie jar is the
  object \<open>self._cookie_jar\<close> already names, so the assignment before the token step
  changes nothing.
\<close>

definition setattr :: "riot_auth \<Rightarrow> string \<Rightarrow> json \<Rightarrow> riot_auth" where
  "setattr self name v = self\<lparr> attrs := AList.update name v (attrs self) \<rparr>"

definition accdict_of :: "riot_auth \<Rightarrow> py_error + json" where
  "accdict_of self =
     and_then (getattr self ''access_token'') (\<lambda>access_token.
     and_then (getattr self ''scope'') (\<lambda>scope.
     and_then (getattr self ''id_token'') (\<lambda>id_token.
     and_then (getattr self ''token_type'') (\<lambda>token_type.
     and_then (getattr self ''expires_at'') (\<lambda>expires_at.
     and_then (getattr self ''user_id'') (\<lambda>user_id.
     and_then (getattr self ''entitlements_token'') (\<lambda>entitlements_token.
       Inr (JObj [(''AccessToken'', access_token),
                  (''Scope'', scope),
                  (''IDToken'', id_token),
                  (''TokenType'', token_type),
                  (''ExpiresAt'', expires_at),
                  (''UserID'', user_id),
                  (''EntitlementsToken'', entitlements_token)]))))))))"

definition open_for_writing :: "world \<Rightarrow> string \<Rightarrow> file_data \<Rightarrow> py_error + world" where
  "open_for_writing w path content =
     (if writable w path then Inr (w\<lparr> files := AList.update path content (files w) \<rparr>)
      else Inl OSError)"

definition entitlements ::
  "riot_auth \<Rightarrow> world \<Rightarrow> (error + unit) \<times> riot_auth \<times> world" where
  "entitlements self w =
     (case and_then (getattr self ''token_type'') (\<lambda>token_type.
             and_then (getattr self ''access_token'') (\<lambda>access_token.
               Inr (TokenTypeAndAccessToken token_type access_token))) of
        Inl e \<Rightarrow> (Inl (Python e), self, w)
      | Inr authorization \<Rightarrow>
          (case send ''POST'' entitlements_url (JObj [])
                  (dict_update auth_headers
                     [(''Authorization'', authorization),
                      (''user-agent'', Lit (RIOT_CLIENT_USER_AGENT ''entitlements''))])
                  self w of
             (Inl e, self1, w1) \<Rightarrow> (Inl (Python e), self1, w1)
           | (Inr j, self1, w1) \<Rightarrow>
               (case py_getitem j ''entitlements_token'' of
                  Inl e \<Rightarrow> (Inl (Python e), self1, w1)
                | Inr token \<Rightarrow>
                    (let self2 = setattr self1 ''entitlements_token'' token in
                     case accdict_of self2 of
                       Inl e \<Rightarrow> (Inl (Python e), self2, w1)
                     | Inr accdict \<Rightarrow>
                         (let self3 = setattr self2 ''accdict'' accdict in
                          case open_for_writing w1 ''accountData.json'' (JsonDump accdict) of
                            Inl e \<Rightarrow> (Inl (Python e), self3, w1)
                          | Inr w2 \<Rightarrow> (Inr (), self3, w2))))))"

definition finish ::
  "pylib \<Rightarrow> riot_auth \<Rightarrow> json \<Rightarrow> world \<Rightarrow> (error + unit) \<times> riot_auth \<times> world" where
  "finish lib self data w =
     (case RiotAuth_set_tokens_from_uri lib self data of
        (Inl e, self1) \<Rightarrow> (Inl (Python e), self1, w)
      | (Inr _, self1) \<Rightarrow>
          (case open_for_writing w ''auth_cookies.pkl'' (Pickle (cookie_jar self1)) of
             Inl e \<Rightarrow> (Inl (Python e), self1, w)
           | Inr w1 \<Rightarrow> entitlements self1 w1))"

text \<open>
  \<open>authorize\<close> up to the end of the region \<open>Authenticate\<close>: the cookie jar is cleared
  when both credentials are non-empty strings, the authorization is requested, and the
  credentials are sent unless the answer is already of type \<open>response\<close>. It returns the
  \<open>data\<close> of the last answer.
\<close>

definition negotiate ::
  "riot_auth \<Rightarrow> string \<Rightarrow> string \<Rightarrow> bool \<Rightarrow> world \<Rightarrow> (error + json) \<times> riot_auth \<times> world" where
  "negotiate self username password use_query_response_mode w =
     (let self0 = (if username \<noteq> [] \<and> password \<noteq> [] then self\<lparr> cookie_jar := [] \<rparr> else self)
      in case send ''POST'' authorization_url (begin_body (nonce w) use_query_response_mode)
                auth_headers self0 w of
           (Inl e, self1, w1) \<Rightarrow> (Inl (Python e), self1, w1)
         | (Inr data, self1, w1) \<Rightarrow>
             (case py_getitem data ''type'' of
                Inl e \<Rightarrow> (Inl (Python e), self1, w1)
              | Inr resp_type \<Rightarrow>
                  (if resp_type \<noteq> JStr ''response''
                   then authenticate self1 username password w1
                   else (Inr data, self1, w1))))"

definition authorize ::
  "pylib \<Rightarrow> riot_auth \<Rightarrow> string \<Rightarrow> string \<Rightarrow> bool \<Rightarrow> world
     \<Rightarrow> (error + unit) \<times> riot_auth \<times> world" where
  "authorize lib self username password use_query_response_mode w =
     (case negotiate self username password use_query_response_mode w of
        (Inl e, self1, w1) \<Rightarrow> (Inl e, self1, w1)
      | (Inr data, self1, w1) \<Rightarrow> finish lib self1 data w1)"

text \<open>\<open>reauthorize\<close>: only \<open>RiotAuthenticationError\<close> is caught.\<close>

definition reauthorize ::
  "pylib \<Rightarrow> riot_auth \<Rightarrow> world \<Rightarrow> (error + bool) \<times> riot_auth \<times> world" where
  "reauthorize lib self w =
     (case authorize lib self [] [] False w of
        (Inr _, self1, w1) \<Rightarrow> (Inr True, self1, w1)
      | (Inl e, self1, w1) \<Rightarrow>
          (if e = RiotAuthenticationError then (Inr False, self1, w1) else (Inl e, self1, w1)))"

section \<open>Concrete runs\<close>



definition stock_context :: ssl_ctx where
  "stock_context =
     \<lparr> minimum_version = TLSv1_2, alpn_protocols = [], options = 0,
       ciphersuites = [], cipher_list = [], sigalgs = [] \<rparr>"


text \<open>
  A session as \<open>__init__\<close> leaves it, and the scripted surroundings used to run the model
  on concrete inputs.
\<close>

definition fresh_session :: riot_auth where
  "fresh_session =
     \<lparr> auth_ssl_ctx = stock_context,
       cookie_jar = [],
       attrs = [(''access_token'', JNull), (''scope'', JNull), (''id_token'', JNull),
                (''token_type'', JNull), (''expires_at'', JInt 0), (''user_id'', JNull),
                (''entitlements_token'', JNull), (''accdict'', JNull)] \<rparr>"

definition redirect :: "string \<Rightarrow> string \<Rightarrow> json" where
  "redirect mode uri =
     JObj [(''type'', JStr ''response''),
           (''response'',
            JObj [(''mode'', JStr mode), (''parameters'', JObj [(''uri'', JStr uri)])])]"

definition scripted :: "(cookies \<times> reply) list \<Rightarrow> string list \<Rightarrow> world" where
  "scripted answers lines =
     \<lparr> responses = answers, requests = [], stdin = lines, nonce = ''nonce'',
       writable = (\<lambda>path. True), files = [] \<rparr>"

text \<open>
  The library at the inputs of the runs below; each line is what CPython 3.11 returns.
  The decoded bytes \<open>{}\<close> are the empty JSON object.
\<close>

definition sample_lib :: pylib where
  "sample_lib =
     lib_table
       [(''{}'', JObj [])]
       [((JStr ''http://localhost/redirect#access_token=a.e30.b'', JStr ''fragment''),
         [(''access_token'', ''a.e30.b'')]),
        ((JStr ''http://localhost/redirect#access_token=a.e30.b&token_type=Bearer'',
          JStr ''fragment''),
         [(''access_token'', ''a.e30.b''), (''token_type'', ''Bearer'')]),
        ((JStr ''http://localhost/redirect#access_token=a.e30.b&extract_jwt=1'',
          JStr ''fragment''),
         [(''access_token'', ''a.e30.b''), (''extract_jwt'', ''1'')]),
        ((JStr ''http://localhost/redirect#access_token=a.A.b'', JStr ''fragment''),
         [(''access_token'', ''a.A.b'')])]"

text \<open>An answer of the provider that sets no cookie and carries a JSON object.\<close>

definition answer :: "(string \<times> json) list \<Rightarrow> cookies \<times> reply" where
  "answer items = ([], ReplyJson (JObj items))"

text \<open>A value that is set: neither \<open>None\<close> nor the empty string.\<close>

definition is_set :: "json \<Rightarrow> bool" where
  "is_set v = (v \<noteq> JNull \<and> v \<noteq> JStr [])"

definition token_fields :: "string list" where
  "token_fields =
     [''access_token'', ''scope'', ''id_token'', ''token_type'', ''expires_at'', ''user_id'',
      ''entitlements_token'']"

section \<open>Base64: decoding what the standard encoder writes\<close>

lemma index_of_nth: "distinct xs \<Longrightarrow> i < length xs \<Longrightarrow> index_of (xs ! i) xs = Some i"
proof (induction xs arbitrary: i)
  case Nil then show ?case by simp
next
  case (Cons y ys)
  show ?case
  proof (cases i)
    case 0 then show ?thesis by simp
  next
    case (Suc j)
    with Cons.prems have "ys ! j \<in> set ys" "y \<notin> set ys" "distinct ys" "j < length ys" by auto
    with Cons.IH[of j] Suc show ?thesis by auto
  qed
qed

lemma distinct_b64_alphabet: "distinct b64_alphabet"
  by (simp add: b64_alphabet_def)

lemma length_b64_alphabet: "length b64_alphabet = 64"
  by (simp add: b64_alphabet_def)

lemma b64_alphabet_chars:
  "\<forall>c \<in> set b64_alphabet. c \<noteq> CHR ''='' \<and> c \<noteq> CHR ''.'' \<and> urlsafe_translate c = c \<and> \<not> 128 \<le> (of_char c :: nat)"
  by (simp add: b64_alphabet_def urlsafe_translate_def)

lemma b64_digit_in: "i < 64 \<Longrightarrow> b64_digit i \<in> set b64_alphabet"
  by (simp add: b64_digit_def length_b64_alphabet)

lemma table_b64_digit: "i < 64 \<Longrightarrow> table_a2b_base64 (b64_digit i) = Some i"
  by (simp add: table_a2b_base64_def b64_digit_def index_of_nth distinct_b64_alphabet length_b64_alphabet)

lemma b64_digit_not_pad: "i < 64 \<Longrightarrow> b64_digit i \<noteq> CHR ''=''"
  using b64_alphabet_chars b64_digit_in by blast

lemma a2b_loop_quad:
  "i1 < 64 \<Longrightarrow> i2 < 64 \<Longrightarrow> i3 < 64 \<Longrightarrow> i4 < 64 \<Longrightarrow>
   a2b_loop 0 l p bin (b64_digit i1 # b64_digit i2 # b64_digit i3 # b64_digit i4 # rest) =
   a2b_loop 0 0 0
     (bin @ [char_of (i1 * 4 + i2 div 16), char_of (i2 mod 16 * 16 + i3 div 4),
             char_of (i3 mod 4 * 64 + i4)]) rest"
  by (simp add: table_b64_digit b64_digit_not_pad)

lemma a2b_loop_pad2:
  "i1 < 64 \<Longrightarrow> i2 < 64 \<Longrightarrow>
   a2b_loop 0 l p bin (b64_digit i1 # b64_digit i2 # ''====='') =
   Inr (bin @ [char_of (i1 * 4 + i2 div 16)])"
  by (simp add: table_b64_digit b64_digit_not_pad)

lemma a2b_loop_pad1:
  "i1 < 64 \<Longrightarrow> i2 < 64 \<Longrightarrow> i3 < 64 \<Longrightarrow>
   a2b_loop 0 l p bin (b64_digit i1 # b64_digit i2 # b64_digit i3 # ''===='') =
   Inr (bin @ [char_of (i1 * 4 + i2 div 16), char_of (i2 mod 16 * 16 + i3 div 4)])"
  by (simp add: table_b64_digit b64_digit_not_pad)

lemma sextet_bounds:
  fixes a b c :: nat
  assumes "a < 256" "b < 256" "c < 256"
  shows "a div 4 < 64" "a mod 4 * 16 + b div 16 < 64" "a mod 4 * 16 < 64"
        "b mod 16 * 4 + c div 64 < 64" "b mod 16 * 4 < 64" "c mod 64 < 64"
proof -
  show "a div 4 < 64" using assms by arith
  show "a mod 4 * 16 + b div 16 < 64" using assms by arith
  show "a mod 4 * 16 < 64" by arith
  show "b mod 16 * 4 + c div 64 < 64" using assms by arith
  show "b mod 16 * 4 < 64" by arith
  show "c mod 64 < 64" by simp
qed

lemma two_bytes:
  fixes a b :: nat
  assumes "b < 256"
  shows "a div 4 * 4 + (a mod 4 * 16 + b div 16) div 16 = a"
    and "(a mod 4 * 16 + b div 16) mod 16 * 16 + b mod 16 * 4 div 4 = b"
proof -
  from assms have s: "b div 16 < 16" by arith
  then show "a div 4 * 4 + (a mod 4 * 16 + b div 16) div 16 = a" by simp
  from s show "(a mod 4 * 16 + b div 16) mod 16 * 16 + b mod 16 * 4 div 4 = b" by simp
qed

lemma three_bytes:
  fixes a b c :: nat
  assumes "b < 256" "c < 256"
  shows "a div 4 * 4 + (a mod 4 * 16 + b div 16) div 16 = a"
    and "(a mod 4 * 16 + b div 16) mod 16 * 16 + (b mod 16 * 4 + c div 64) div 4 = b"
    and "(b mod 16 * 4 + c div 64) mod 4 * 64 + c mod 64 = c"
proof -
  from assms have s: "b div 16 < 16" "c div 64 < 4" by arith+
  from s show "a div 4 * 4 + (a mod 4 * 16 + b div 16) div 16 = a" by simp
  from s show "(a mod 4 * 16 + b div 16) mod 16 * 16 + (b mod 16 * 4 + c div 64) div 4 = b"
    by simp
  from s show "(b mod 16 * 4 + c div 64) mod 4 * 64 + c mod 64 = c" by simp
qed

lemma a2b_loop_std_b64encode:
  "a2b_loop 0 l p bin (std_b64encode bs @ ''==='') = Inr (bin @ bs)"
proof (induction bs arbitrary: l p bin rule: std_b64encode.induct)
  case 1
  show ?case by simp
next
  case (2 a)
  have n: "(of_char a :: nat) < 256" by (rule nat_of_char_less_256)
  show ?case
    using sextet_bounds(1,3)[OF n n n]
    by (simp add: a2b_loop_pad2 del: a2b_loop.simps)
next
  case (3 a b)
  have n: "(of_char a :: nat) < 256" "(of_char b :: nat) < 256" by (rule nat_of_char_less_256)+
  note bytes = two_bytes[OF n(2), of "of_char a"]
  show ?case
    by (simp only: std_b64encode.simps append_Cons append_Nil bytes char_of_char
        a2b_loop_pad1[OF sextet_bounds(1,2)[OF n(1) n(2) n(2)] sextet_bounds(5)[OF n(1) n(2) n(2)]])
next
  case (4 a b c rest)
  have n: "(of_char a :: nat) < 256" "(of_char b :: nat) < 256" "(of_char c :: nat) < 256"
    by (rule nat_of_char_less_256)+
  note bytes = three_bytes[OF n(2) n(3)]
  have "a2b_loop 0 l p bin (std_b64encode (a # b # c # rest) @ ''==='') =
        a2b_loop 0 0 0 (bin @ [a, b, c]) (std_b64encode rest @ ''==='')"
    by (simp only: std_b64encode.simps append_Cons append_Nil bytes char_of_char
        a2b_loop_quad[OF sextet_bounds(1,2,4,6)[OF n]])
  then show ?case by (simp only: "4.IH" append_assoc append_Cons append_Nil)
qed

lemma std_b64encode_chars: "set (std_b64encode bs) \<subseteq> insert CHR ''='' (set b64_alphabet)"
proof (induction bs rule: std_b64encode.induct)
  case 1 show ?case by simp
next
  case (2 a)
  have n: "(of_char a :: nat) < 256" by (rule nat_of_char_less_256)
  show ?case using sextet_bounds(1,3)[OF n n n] by (simp add: b64_digit_in)
next
  case (3 a b)
  have n: "(of_char a :: nat) < 256" "(of_char b :: nat) < 256" by (rule nat_of_char_less_256)+
  show ?case using sextet_bounds[OF n(1) n(2) n(2)] by (simp add: b64_digit_in)
next
  case (4 a b c rest)
  have n: "(of_char a :: nat) < 256" "(of_char b :: nat) < 256" "(of_char c :: nat) < 256"
    by (rule nat_of_char_less_256)+
  show ?case using sextet_bounds[OF n] "4.IH" by (simp add: b64_digit_in)
qed

lemma std_b64encode_plain:
  assumes "c \<in> set (std_b64encode bs)"
  shows "c \<noteq> CHR ''.''" "urlsafe_translate c = c" "\<not> 128 \<le> (of_char c :: nat)"
proof -
  from assms std_b64encode_chars have "c = CHR ''='' \<or> c \<in> set b64_alphabet" by blast
  then have "c \<noteq> CHR ''.'' \<and> urlsafe_translate c = c \<and> \<not> 128 \<le> (of_char c :: nat)"
  proof
    assume "c = CHR ''=''"
    then show ?thesis by (simp add: urlsafe_translate_def)
  next
    assume "c \<in> set b64_alphabet"
    with b64_alphabet_chars
    have "c \<noteq> CHR ''='' \<and> c \<noteq> CHR ''.'' \<and> urlsafe_translate c = c
            \<and> \<not> 128 \<le> (of_char c :: nat)"
      by (rule bspec)
    then show ?thesis by (elim conjE) (intro conjI)
  qed
  then show "c \<noteq> CHR ''.''" "urlsafe_translate c = c" "\<not> 128 \<le> (of_char c :: nat)"
    by blast+
qed

lemma urlsafe_b64decode_std_b64encode:
  "urlsafe_b64decode (std_b64encode bs @ ''==='') = Inr bs"
proof -
  have tr: "map urlsafe_translate (std_b64encode bs) = std_b64encode bs"
    by (rule map_idI) (rule std_b64encode_plain(2))
  have asc: "\<not> list_ex (\<lambda>c. 128 \<le> (of_char c :: nat)) (std_b64encode bs @ ''==='')"
    using std_b64encode_plain(3) by (auto simp: list_ex_iff)
  have "map urlsafe_translate (std_b64encode bs @ ''==='') = std_b64encode bs @ ''==='' "
    by (simp add: tr urlsafe_translate_def)
  with asc show ?thesis
    unfolding urlsafe_b64decode_def a2b_base64_def
    by (simp only: a2b_loop_std_b64encode if_False append_Nil)
qed

lemma py_split_no_sep: "c \<notin> set xs \<Longrightarrow> py_split c xs = [xs]"
  by (induction xs) auto

lemma py_split_append: "c \<notin> set xs \<Longrightarrow> py_split c (xs @ c # ys) = xs # py_split c ys"
  by (induction xs) auto

section \<open>The token extractor reads the claims of a well-formed token\<close>

text \<open>
  C3. For every access token \<open>header.payload.signature\<close> whose middle segment is the
  padded standard base64 encoding of bytes that \<open>json.loads\<close> parses to an object, the
  extractor returns the pair \<open>user_id\<close> with the object's \<open>sub\<close> and the pair
  \<open>expires_at\<close> with its \<open>exp\<close> (\<open>None\<close> for a claim the object does not have). The
  code reads the second segment only, so what follows the second dot is free.
\<close>

theorem get_keys_from_access_token_reads_claims:
  assumes token: "getattr self ''access_token''
                    = Inr (JStr (header @ ''.'' @ std_b64encode payload @ ''.'' @ signature))"
      and header: "CHR ''.'' \<notin> set header"
      and object: "json_loads lib payload = Some (JObj claims)"
  shows "RiotAuth_get_keys_from_access_token lib self default_key_attr_pairs
           = Inr [(''user_id'', dict_get claims ''sub''), (''expires_at'', dict_get claims ''exp'')]"
proof -
  have nodot: "CHR ''.'' \<notin> set (std_b64encode payload)"
    using std_b64encode_plain(1) by blast
  have "py_split CHR ''.'' (header @ ''.'' @ std_b64encode payload @ ''.'' @ signature)
          = header # std_b64encode payload # py_split CHR ''.'' signature"
    using py_split_append[OF header] py_split_append[OF nodot] by simp
  then show ?thesis
    using token object
    by (simp add: RiotAuth_get_keys_from_access_token_def urlsafe_b64decode_std_b64encode
        comprehension_def default_key_attr_pairs_def)
qed

theorem get_keys_from_access_token_reads_claims_witness:
  "getattr (setattr fresh_session ''access_token'' (JStr ''h.eyJzdWIiOiJ1MSIsImV4cCI6NX0=.s''))
       ''access_token''
     = Inr (JStr (''h'' @ ''.'' @ std_b64encode ''{\"sub\":\"u1\",\"exp\":5}'' @ ''.'' @ ''s''))
   \<and> CHR ''.'' \<notin> set ''h''
   \<and> json_loads (lib_table [(''{\"sub\":\"u1\",\"exp\":5}'',
                               JObj [(''sub'', JStr ''u1''), (''exp'', JInt 5)])] [])
         ''{\"sub\":\"u1\",\"exp\":5}''
       = Some (JObj [(''sub'', JStr ''u1''), (''exp'', JInt 5)])
   \<and> RiotAuth_get_keys_from_access_token
         (lib_table [(''{\"sub\":\"u1\",\"exp\":5}'',
                      JObj [(''sub'', JStr ''u1''), (''exp'', JInt 5)])] [])
         (setattr fresh_session ''access_token'' (JStr ''h.eyJzdWIiOiJ1MSIsImV4cCI6NX0=.s''))
         default_key_attr_pairs
       = Inr [(''user_id'', JStr ''u1''), (''expires_at'', JInt 5)]"
proof -
  let ?lib = "lib_table [(''{\"sub\":\"u1\",\"exp\":5}'',
                          JObj [(''sub'', JStr ''u1''), (''exp'', JInt 5)])] []"
  let ?self = "setattr fresh_session ''access_token'' (JStr ''h.eyJzdWIiOiJ1MSIsImV4cCI6NX0=.s'')"
  have enc: "std_b64encode ''{\"sub\":\"u1\",\"exp\":5}'' = ''eyJzdWIiOiJ1MSIsImV4cCI6NX0=''"
    by code_simp
  have token: "getattr ?self ''access_token''
                 = Inr (JStr (''h'' @ ''.'' @ std_b64encode ''{\"sub\":\"u1\",\"exp\":5}'' @ ''.'' @ ''s''))"
    by (simp add: enc getattr_def setattr_def fresh_session_def del: std_b64encode.simps)
  have header: "CHR ''.'' \<notin> set ''h''" by simp
  have object: "json_loads ?lib ''{\"sub\":\"u1\",\"exp\":5}''
                  = Some (JObj [(''sub'', JStr ''u1''), (''exp'', JInt 5)])"
    by (simp add: lib_table_def)
  from get_keys_from_access_token_reads_claims[OF token header object] token header object
  show ?thesis by (simp add: dict_get_def enc del: std_b64encode.simps)
qed

section \<open>The TLS profile: what is asked of the library and what the context offers\<close>









section \<open>Requests and answers\<close>

lemma send_proj:
  "attrs (fst (snd (send verb address body headers self w))) = attrs self"
  "auth_ssl_ctx (fst (snd (send verb address body headers self w))) = auth_ssl_ctx self"
  "requests (snd (snd (send verb address body headers self w))) = requests w @
           [\<lparr> req_method = verb, req_url = address, req_json = body,
              req_headers = headers, req_cookies = cookie_jar self \<rparr>]"
  "stdin (snd (snd (send verb address body headers self w))) = stdin w"
  "files (snd (snd (send verb address body headers self w))) = files w"
  "writable (snd (snd (send verb address body headers self w))) = writable w"
  "nonce (snd (snd (send verb address body headers self w))) = nonce w"
  by (simp_all add: send_def Let_def split: list.splits prod.splits reply.splits)

lemma send_frame:
  assumes "send verb address body headers self w = (r, self1, w1)"
  shows "attrs self1 = attrs self"
    and "requests w1 = requests w @
           [\<lparr> req_method = verb, req_url = address, req_json = body,
              req_headers = headers, req_cookies = cookie_jar self \<rparr>]"
  using send_proj(1,3)[of verb address body headers self w] assms by simp_all

lemma send_answer:
  assumes "responses w = (set_cookie, ReplyJson j) # rest"
  shows "send verb address body headers self w =
           (Inr j, self\<lparr> cookie_jar := dict_update (cookie_jar self) set_cookie \<rparr>,
            w\<lparr> requests := requests w @
                  [\<lparr> req_method = verb, req_url = address, req_json = body,
                     req_headers = headers, req_cookies = cookie_jar self \<rparr>],
               responses := rest \<rparr>)"
  using assms by (simp add: send_def Let_def)

lemma authorize_negotiate_error:
  assumes "fst (negotiate self username password q w) = Inl e"
  shows "fst (authorize lib self username password q w) = Inl e"
proof -
  obtain r self1 w1 where n: "negotiate self username password q w = (r, self1, w1)"
    by (cases "negotiate self username password q w")
  with assms have "r = Inl e" by simp
  with n show ?thesis by (simp add: authorize_def)
qed

lemma negotiate_submits_credentials:
  assumes "responses w = (cookies0, ReplyJson (JObj d0)) # rest0"
      and "map_of d0 ''type'' = Some t0" and "t0 \<noteq> JStr ''response''"
  shows "\<exists>self1 w1. negotiate self username password q w = authenticate self1 username password w1
           \<and> responses w1 = rest0"
proof -
  let ?self0 = "if username \<noteq> [] \<and> password \<noteq> [] then self\<lparr> cookie_jar := [] \<rparr> else self"
  let ?self1 = "?self0\<lparr> cookie_jar := dict_update (cookie_jar ?self0) cookies0 \<rparr>"
  let ?w1 = "w\<lparr> requests := requests w @
                  [\<lparr> req_method = ''POST'', req_url = authorization_url,
                     req_json = begin_body (nonce w) q,
                     req_headers = auth_headers, req_cookies = cookie_jar ?self0 \<rparr>],
               responses := rest0 \<rparr>"
  have e: "negotiate self username password q w = authenticate ?self1 username password ?w1"
    using assms(2,3)
    by (simp add: negotiate_def Let_def send_answer[OF assms(1)] split del: if_split)
  have r: "responses ?w1 = rest0" by simp
  show ?thesis
    by (rule exI[of _ ?self1], rule exI[of _ ?w1], rule conjI[OF e r])
qed

lemma authenticate_failures:
  assumes "responses w = (cookies1, ReplyJson (JObj d1)) # rest"
      and "map_of d1 ''type'' = Some t1"
  shows "t1 = JStr ''auth'' \<Longrightarrow> dict_get d1 ''error'' = JStr ''auth_failure''
           \<Longrightarrow> fst (authenticate self username password w) = Inl RiotAuthenticationError"
    and "t1 = JStr ''auth'' \<Longrightarrow> dict_get d1 ''error'' = JStr ''rate_limited''
           \<Longrightarrow> fst (authenticate self username password w) = Inl RiotRatelimitError"
    and "t1 = JStr ''auth'' \<Longrightarrow> dict_get d1 ''error'' \<noteq> JStr ''auth_failure''
           \<Longrightarrow> dict_get d1 ''error'' \<noteq> JStr ''rate_limited''
           \<Longrightarrow> fst (authenticate self username password w) = Inl RiotUnknownErrorTypeError"
    and "t1 \<noteq> JStr ''response'' \<Longrightarrow> t1 \<noteq> JStr ''auth'' \<Longrightarrow> t1 \<noteq> JStr ''multifactor''
           \<Longrightarrow> fst (authenticate self username password w) = Inl RiotUnknownResponseTypeError"
  using assms(2) by (simp_all add: authenticate_def Let_def send_answer[OF assms(1)])

section \<open>Failures of the credential submission\<close>

text \<open>
  C1. When the authorization request is answered by an object whose \<open>type\<close> is not
  \<open>response\<close>, the credentials are submitted, and an answer to them that is an object
  with a \<open>type\<close> decides the failure: \<open>auth\<close> with the error \<open>auth_failure\<close> raises
  \<open>RiotAuthenticationError\<close>, \<open>auth\<close> with \<open>rate_limited\<close> raises \<open>RiotRatelimitError\<close>,
  \<open>auth\<close> with any other error (or none) raises \<open>RiotUnknownErrorTypeError\<close>, and a type
  other than \<open>response\<close>, \<open>auth\<close> and \<open>multifactor\<close> raises
  \<open>RiotUnknownResponseTypeError\<close>.
\<close>

theorem authorize_credential_failures:
  assumes answers: "responses w = (cookies0, ReplyJson (JObj d0))
                                   # (cookies1, ReplyJson (JObj d1)) # rest"
      and first: "map_of d0 ''type'' = Some t0" "t0 \<noteq> JStr ''response''"
      and second: "map_of d1 ''type'' = Some t1"
  shows "(t1 = JStr ''auth'' \<and> dict_get d1 ''error'' = JStr ''auth_failure''
            \<longrightarrow> fst (authorize lib self username password q w) = Inl RiotAuthenticationError)
       \<and> (t1 = JStr ''auth'' \<and> dict_get d1 ''error'' = JStr ''rate_limited''
            \<longrightarrow> fst (authorize lib self username password q w) = Inl RiotRatelimitError)
       \<and> (t1 = JStr ''auth'' \<and> dict_get d1 ''error'' \<noteq> JStr ''auth_failure''
              \<and> dict_get d1 ''error'' \<noteq> JStr ''rate_limited''
            \<longrightarrow> fst (authorize lib self username password q w) = Inl RiotUnknownErrorTypeError)
       \<and> (t1 \<noteq> JStr ''response'' \<and> t1 \<noteq> JStr ''auth'' \<and> t1 \<noteq> JStr ''multifactor''
            \<longrightarrow> fst (authorize lib self username password q w)
                  = Inl RiotUnknownResponseTypeError)"
proof -
  from negotiate_submits_credentials[OF answers first]
  obtain self1 w1 where
    n: "negotiate self username password q w = authenticate self1 username password w1"
    and r: "responses w1 = (cookies1, ReplyJson (JObj d1)) # rest"
    by blast
  note f = authenticate_failures[OF r second, of self1 username password]
  show ?thesis
    by (intro conjI impI; elim conjE; rule authorize_negotiate_error; simp only: n;
        rule f; assumption)
qed

section \<open>What each stage leaves unchanged\<close>

lemma multifactor_frame:
  assumes "multifactor self w = (r, self1, w1)"
  shows "attrs self1 = attrs self" and "prefix (requests w) (requests w1)"
proof -
  show "attrs self1 = attrs self"
  proof (cases "stdin w")
    case Nil
    with assms show ?thesis by (simp add: multifactor_def)
  next
    case (Cons code lines)
    obtain r2 self2 w2 where
      s: "send ''PUT'' authorization_url (multifactor_body code) auth_headers self
            (w\<lparr> stdin := lines \<rparr>) = (r2, self2, w2)"
      by (cases "send ''PUT'' authorization_url (multifactor_body code) auth_headers self
                   (w\<lparr> stdin := lines \<rparr>)")
    from assms Cons s have "self1 = self2"
      by (simp add: multifactor_def split: sum.splits json.splits if_splits)
    with send_frame(1)[OF s] show ?thesis by simp
  qed
  show "prefix (requests w) (requests w1)"
  proof (cases "stdin w")
    case Nil
    with assms show ?thesis by (simp add: multifactor_def)
  next
    case (Cons code lines)
    obtain r2 self2 w2 where
      s: "send ''PUT'' authorization_url (multifactor_body code) auth_headers self
            (w\<lparr> stdin := lines \<rparr>) = (r2, self2, w2)"
      by (cases "send ''PUT'' authorization_url (multifactor_body code) auth_headers self
                   (w\<lparr> stdin := lines \<rparr>)")
    from assms Cons s have "w1 = w2"
      by (simp add: multifactor_def split: sum.splits json.splits if_splits)
    with send_frame(2)[OF s] show ?thesis by simp
  qed
qed

lemma authenticate_frame:
  assumes "authenticate self username password w = (r, self1, w1)"
  shows "attrs self1 = attrs self" and "prefix (requests w) (requests w1)"
proof -
  obtain r2 self2 w2 where
    s: "send ''PUT'' authorization_url (auth_body username password) auth_headers self w
          = (r2, self2, w2)"
    by (cases "send ''PUT'' authorization_url (auth_body username password) auth_headers self w")
  note f = send_frame[OF s]
  have "(self1 = self2 \<and> w1 = w2) \<or> (\<exists>r3. multifactor self2 w2 = (r3, self1, w1))"
    using assms s
    by (simp add: authenticate_def Let_def split: sum.splits if_splits)
  then have m: "attrs self1 = attrs self2" "prefix (requests w2) (requests w1)"
    using multifactor_frame by auto
  from f(2) have p: "prefix (requests w) (requests w2)" by simp
  from m(1) f(1) show "attrs self1 = attrs self" by simp
  from p m(2) show "prefix (requests w) (requests w1)" by (rule prefix_order.trans)
qed

lemma entitlements_frame:
  assumes "entitlements self w = (r, self1, w1)"
  shows "prefix (requests w) (requests w1)" and "r = Inl e \<Longrightarrow> \<exists>pe. e = Python pe"
proof -
  show "r = Inl e \<Longrightarrow> \<exists>pe. e = Python pe"
    using assms
    by (auto simp: entitlements_def Let_def split: sum.splits prod.splits)
  show "prefix (requests w) (requests w1)"
  proof (cases "and_then (getattr self ''token_type'') (\<lambda>token_type.
             and_then (getattr self ''access_token'') (\<lambda>access_token.
               Inr (TokenTypeAndAccessToken token_type access_token)))")
    case (Inl e)
    with assms show ?thesis by (simp add: entitlements_def)
  next
    case (Inr authorization)
    obtain r2 self2 w2 where
      s: "send ''POST'' entitlements_url (JObj [])
                  (dict_update auth_headers
                     [(''Authorization'', authorization),
                      (''user-agent'', Lit (RIOT_CLIENT_USER_AGENT ''entitlements''))])
                  self w = (r2, self2, w2)"
      by (cases "send ''POST'' entitlements_url (JObj [])
                  (dict_update auth_headers
                     [(''Authorization'', authorization),
                      (''user-agent'', Lit (RIOT_CLIENT_USER_AGENT ''entitlements''))])
                  self w")
    from assms Inr s have "requests w1 = requests w2"
      by (auto simp: entitlements_def Let_def open_for_writing_def
          split: sum.splits if_splits)
    with send_frame(2)[OF s] show ?thesis by simp
  qed
qed

lemma finish_frame:
  assumes "finish lib self data w = (r, self1, w1)"
  shows "prefix (requests w) (requests w1)" and "r = Inl e \<Longrightarrow> \<exists>pe. e = Python pe"
proof -
  obtain r2 self2 where t: "RiotAuth_set_tokens_from_uri lib self data = (r2, self2)"
    by (cases "RiotAuth_set_tokens_from_uri lib self data")
  have "(\<exists>pe. r = Inl (Python pe) \<and> w1 = w)
        \<or> (\<exists>w2. requests w2 = requests w \<and> entitlements self2 w2 = (r, self1, w1))"
    using assms t
    by (auto simp: finish_def open_for_writing_def split: sum.splits if_splits)
  then show "prefix (requests w) (requests w1)" and "r = Inl e \<Longrightarrow> \<exists>pe. e = Python pe"
    using entitlements_frame by (auto, metis)
qed

lemma negotiate_frame:
  assumes "negotiate self username password q w = (r, self1, w1)"
  shows "attrs self1 = attrs self"
    and "\<exists>rs. requests w1 = requests w @
           \<lparr> req_method = ''POST'', req_url = authorization_url,
              req_json = begin_body (nonce w) q, req_headers = auth_headers,
              req_cookies = (if username \<noteq> [] \<and> password \<noteq> [] then [] else cookie_jar self) \<rparr>
           # rs"
proof -
  let ?self0 = "if username \<noteq> [] \<and> password \<noteq> [] then self\<lparr> cookie_jar := [] \<rparr> else self"
  obtain r2 self2 w2 where
    s: "send ''POST'' authorization_url (begin_body (nonce w) q) auth_headers ?self0 w
          = (r2, self2, w2)"
    by (cases "send ''POST'' authorization_url (begin_body (nonce w) q) auth_headers ?self0 w")
  note f = send_frame[OF s]
  have jar: "cookie_jar ?self0 = (if username \<noteq> [] \<and> password \<noteq> [] then [] else cookie_jar self)"
    by simp
  have at: "attrs ?self0 = attrs self" by simp
  have "(self1 = self2 \<and> w1 = w2) \<or> authenticate self2 username password w2 = (r, self1, w1)"
    using assms s
    by (simp add: negotiate_def Let_def split: sum.splits if_splits)
  then have m: "attrs self1 = attrs self2" "prefix (requests w2) (requests w1)"
    using authenticate_frame by auto
  from m(1) f(1) at show "attrs self1 = attrs self" by simp
  from m(2) obtain zs where "requests w1 = requests w2 @ zs" by (auto simp: prefix_def)
  with f(2) jar show "\<exists>rs. requests w1 = requests w @
           \<lparr> req_method = ''POST'', req_url = authorization_url,
              req_json = begin_body (nonce w) q, req_headers = auth_headers,
              req_cookies = (if username \<noteq> [] \<and> password \<noteq> [] then [] else cookie_jar self) \<rparr>
           # rs"
    by simp
qed

section \<open>Evaluating concrete runs\<close>

lemmas engine_defs =
  authorize_def negotiate_def authenticate_def multifactor_def finish_def entitlements_def
  send_def open_for_writing_def accdict_of_def setattr_def getattr_def and_then_def
  RiotAuth_set_tokens_from_uri_def uri_data_def call_update_def RiotAuth_update_def update_predefined_def
  predefined_keys_def dict_keys_def RiotAuth_get_keys_from_access_token_def comprehension_def
  default_key_attr_pairs_def dict_update_def py_dict_def dict_get_def
  scripted_def answer_def redirect_def sample_lib_def lib_table_def fresh_session_def Let_def

lemma decode_e30: "urlsafe_b64decode ''e30==='' = Inr ''{}''"
  by code_simp

lemma decode_A: "urlsafe_b64decode ''A==='' = Inl BinasciiError"
  by code_simp

lemma decode_star_e30: "urlsafe_b64decode ''*e30==='' = Inr ''{}''"
  by code_simp

lemma run_auth_error:
  "fst (authorize sample_lib fresh_session username password False
          (scripted [answer [(''type'', JStr ''auth'')],
                     answer [(''type'', JStr ''auth''), (''error'', JStr ''auth_failure'')]] []))
     = Inl RiotAuthenticationError"
  "fst (authorize sample_lib fresh_session username password False
          (scripted [answer [(''type'', JStr ''auth'')],
                     answer [(''type'', JStr ''auth''), (''error'', JStr ''rate_limited'')]] []))
     = Inl RiotRatelimitError"
  by (simp_all add: engine_defs)

lemma run_success:
  "fst (authorize sample_lib fresh_session username password False
          (scripted [([(''ssid'', ''1'')],
                      ReplyJson (redirect ''fragment''
                        ''http://localhost/redirect#access_token=a.e30.b&token_type=Bearer'')),
                     answer [(''entitlements_token'', JStr ''E'')]] []))
     = Inr ()"
  by (simp add: engine_defs decode_e30)

section \<open>Reauthorization\<close>

text \<open>
  C2. \<open>reauthorize\<close> runs \<open>authorize\<close> with the empty username and the empty password
  and ends in the state and world that run ends in. It returns \<open>True\<close> when the run
  completes, returns \<open>False\<close> exactly when the run raises \<open>RiotAuthenticationError\<close>, and
  raises every other error of the run unchanged.
\<close>

theorem reauthorize_outcomes:
  "(fst (authorize lib self [] [] False w) = Inr ()
      \<longrightarrow> fst (reauthorize lib self w) = Inr True)
   \<and> (fst (reauthorize lib self w) = Inr False
        \<longleftrightarrow> fst (authorize lib self [] [] False w) = Inl RiotAuthenticationError)
   \<and> (fst (authorize lib self [] [] False w) = Inl e \<and> e \<noteq> RiotAuthenticationError
      \<longrightarrow> fst (reauthorize lib self w) = Inl e)
   \<and> snd (reauthorize lib self w) = snd (authorize lib self [] [] False w)"
proof -
  obtain r self1 w1 where a: "authorize lib self [] [] False w = (r, self1, w1)"
    by (cases "authorize lib self [] [] False w")
  show ?thesis
    by (cases r) (simp_all add: reauthorize_def a)
qed

theorem reauthorize_outcomes_witness:
  "fst (authorize sample_lib fresh_session [] [] False
          (scripted [([(''ssid'', ''1'')],
                      ReplyJson (redirect ''fragment''
                        ''http://localhost/redirect#access_token=a.e30.b&token_type=Bearer'')),
                     answer [(''entitlements_token'', JStr ''E'')]] [])) = Inr ()
   \<and> fst (reauthorize sample_lib fresh_session
          (scripted [([(''ssid'', ''1'')],
                      ReplyJson (redirect ''fragment''
                        ''http://localhost/redirect#access_token=a.e30.b&token_type=Bearer'')),
                     answer [(''entitlements_token'', JStr ''E'')]] [])) = Inr True
   \<and> fst (authorize sample_lib fresh_session [] [] False
          (scripted [answer [(''type'', JStr ''auth'')],
                     answer [(''type'', JStr ''auth''), (''error'', JStr ''auth_failure'')]] []))
       = Inl RiotAuthenticationError
   \<and> fst (reauthorize sample_lib fresh_session
          (scripted [answer [(''type'', JStr ''auth'')],
                     answer [(''type'', JStr ''auth''), (''error'', JStr ''auth_failure'')]] []))
       = Inr False
   \<and> fst (authorize sample_lib fresh_session [] [] False
          (scripted [answer [(''type'', JStr ''auth'')],
                     answer [(''type'', JStr ''auth''), (''error'', JStr ''rate_limited'')]] []))
       = Inl RiotRatelimitError
   \<and> RiotRatelimitError \<noteq> RiotAuthenticationError
   \<and> fst (reauthorize sample_lib fresh_session
          (scripted [answer [(''type'', JStr ''auth'')],
                     answer [(''type'', JStr ''auth''), (''error'', JStr ''rate_limited'')]] []))
       = Inl RiotRatelimitError"
proof -
  let ?ok = "scripted [([(''ssid'', ''1'')],
                      ReplyJson (redirect ''fragment''
                        ''http://localhost/redirect#access_token=a.e30.b&token_type=Bearer'')),
                     answer [(''entitlements_token'', JStr ''E'')]] []"
  let ?bad = "scripted [answer [(''type'', JStr ''auth'')],
                     answer [(''type'', JStr ''auth''), (''error'', JStr ''auth_failure'')]] []"
  let ?slow = "scripted [answer [(''type'', JStr ''auth'')],
                     answer [(''type'', JStr ''auth''), (''error'', JStr ''rate_limited'')]] []"
  have ok: "fst (authorize sample_lib fresh_session [] [] False ?ok) = Inr ()"
    by (rule run_success)
  have bad: "fst (authorize sample_lib fresh_session [] [] False ?bad) = Inl RiotAuthenticationError"
    by (rule run_auth_error(1))
  have slow: "fst (authorize sample_lib fresh_session [] [] False ?slow) = Inl RiotRatelimitError"
    by (rule run_auth_error(2))
  have d: "RiotRatelimitError \<noteq> RiotAuthenticationError" by simp
  from reauthorize_outcomes[of sample_lib fresh_session ?ok RiotRatelimitError] ok
  have 1: "fst (reauthorize sample_lib fresh_session ?ok) = Inr True" by simp
  from reauthorize_outcomes[of sample_lib fresh_session ?bad RiotRatelimitError] bad
  have 2: "fst (reauthorize sample_lib fresh_session ?bad) = Inr False" by simp
  from reauthorize_outcomes[of sample_lib fresh_session ?slow RiotRatelimitError] slow d
  have 3: "fst (reauthorize sample_lib fresh_session ?slow) = Inl RiotRatelimitError" by simp
  show ?thesis by (intro conjI ok bad slow d 1 2 3)
qed

theorem authorize_credential_failures_witness:
  "fst (authorize sample_lib fresh_session ''user'' ''pass'' False
          (scripted [answer [(''type'', JStr ''auth'')],
                     answer [(''type'', JStr ''auth''), (''error'', JStr ''auth_failure'')]] []))
     = Inl RiotAuthenticationError
   \<and> fst (authorize sample_lib fresh_session ''user'' ''pass'' False
          (scripted [answer [(''type'', JStr ''auth'')],
                     answer [(''type'', JStr ''auth''), (''error'', JStr ''rate_limited'')]] []))
     = Inl RiotRatelimitError
   \<and> fst (authorize sample_lib fresh_session ''user'' ''pass'' False
          (scripted [answer [(''type'', JStr ''auth'')],
                     answer [(''type'', JStr ''auth''), (''error'', JStr ''captcha'')]] []))
     = Inl RiotUnknownErrorTypeError
   \<and> fst (authorize sample_lib fresh_session ''user'' ''pass'' False
          (scripted [answer [(''type'', JStr ''auth'')],
                     answer [(''type'', JStr ''signup'')]] []))
     = Inl RiotUnknownResponseTypeError"
proof -
  have a: "responses (scripted [answer d0, answer d1] [])
             = ([], ReplyJson (JObj d0)) # ([], ReplyJson (JObj d1)) # []" for d0 d1
    by (simp add: scripted_def answer_def)
  have f1: "map_of [(''type'', JStr ''auth'')] ''type'' = Some (JStr ''auth'')" by simp
  have f2: "JStr ''auth'' \<noteq> JStr ''response''" by simp
  have s1: "map_of [(''type'', JStr ''auth''), (''error'', JStr ''auth_failure'')] ''type''
              = Some (JStr ''auth'')" by simp
  have s2: "map_of [(''type'', JStr ''auth''), (''error'', JStr ''rate_limited'')] ''type''
              = Some (JStr ''auth'')" by simp
  have s3: "map_of [(''type'', JStr ''auth''), (''error'', JStr ''captcha'')] ''type''
              = Some (JStr ''auth'')" by simp
  have s4: "map_of [(''type'', JStr ''signup'')] ''type'' = Some (JStr ''signup'')" by simp
  have 1: "fst (authorize sample_lib fresh_session ''user'' ''pass'' False
          (scripted [answer [(''type'', JStr ''auth'')],
                     answer [(''type'', JStr ''auth''), (''error'', JStr ''auth_failure'')]] []))
     = Inl RiotAuthenticationError"
    using authorize_credential_failures[OF a f1 f2 s1, where lib = sample_lib
        and self = fresh_session and username = "''user''" and password = "''pass''"
        and q = False]
    by (simp add: dict_get_def)
  have 2: "fst (authorize sample_lib fresh_session ''user'' ''pass'' False
          (scripted [answer [(''type'', JStr ''auth'')],
                     answer [(''type'', JStr ''auth''), (''error'', JStr ''rate_limited'')]] []))
     = Inl RiotRatelimitError"
    using authorize_credential_failures[OF a f1 f2 s2, where lib = sample_lib
        and self = fresh_session and username = "''user''" and password = "''pass''"
        and q = False]
    by (simp add: dict_get_def)
  have 3: "fst (authorize sample_lib fresh_session ''user'' ''pass'' False
          (scripted [answer [(''type'', JStr ''auth'')],
                     answer [(''type'', JStr ''auth''), (''error'', JStr ''captcha'')]] []))
     = Inl RiotUnknownErrorTypeError"
    using authorize_credential_failures[OF a f1 f2 s3, where lib = sample_lib
        and self = fresh_session and username = "''user''" and password = "''pass''"
        and q = False]
    by (simp add: dict_get_def)
  have 4: "fst (authorize sample_lib fresh_session ''user'' ''pass'' False
          (scripted [answer [(''type'', JStr ''auth'')],
                     answer [(''type'', JStr ''signup'')]] []))
     = Inl RiotUnknownResponseTypeError"
    using authorize_credential_failures[OF a f1 f2 s4, where lib = sample_lib
        and self = fresh_session and username = "''user''" and password = "''pass''"
        and q = False]
    by simp
  show ?thesis by (intro conjI 1 2 3 4)
qed

section \<open>The cookie store and the first request\<close>



section \<open>Errors of the credential stage leave the token fields alone\<close>

text \<open>
  C10. When \<open>authorize\<close> raises \<open>RiotAuthenticationError\<close>, \<open>RiotRatelimitError\<close>,
  \<open>RiotUnknownErrorTypeError\<close> or \<open>RiotUnknownResponseTypeError\<close>, every attribute outside
  the two private ones, and so each of the seven token fields, has the value it had
  before the call: these errors are raised only before the token step, which can raise
  only errors of other kinds.
\<close>

theorem authorize_credential_errors_keep_tokens:
  assumes "fst (authorize lib self username password q w)
             \<in> {Inl RiotAuthenticationError, Inl RiotRatelimitError,
                Inl RiotUnknownErrorTypeError, Inl RiotUnknownResponseTypeError}"
  shows "attrs (fst (snd (authorize lib self username password q w))) = attrs self
         \<and> (\<forall>name \<in> set token_fields.
               getattr (fst (snd (authorize lib self username password q w))) name
                 = getattr self name)"
proof -
  obtain r self1 w1 where n: "negotiate self username password q w = (r, self1, w1)"
    by (cases "negotiate self username password q w")
  note same = negotiate_frame(1)[OF n]
  have "attrs (fst (snd (authorize lib self username password q w))) = attrs self"
  proof (cases r)
    case (Inl e)
    with n same show ?thesis by (simp add: authorize_def)
  next
    case (Inr data)
    obtain r2 self2 w2 where f: "finish lib self1 data w1 = (r2, self2, w2)"
      by (cases "finish lib self1 data w1")
    from n Inr f have r2: "fst (authorize lib self username password q w) = r2"
      by (simp add: authorize_def)
    with assms obtain e where e: "r2 = Inl e" and
      "e = RiotAuthenticationError \<or> e = RiotRatelimitError
         \<or> e = RiotUnknownErrorTypeError \<or> e = RiotUnknownResponseTypeError"
      by auto
    moreover from finish_frame(2)[OF f e] obtain pe where "e = Python pe" by blast
    ultimately show ?thesis by auto
  qed
  then show ?thesis by (simp add: getattr_def)
qed

theorem authorize_credential_errors_keep_tokens_witness:
  "fst (authorize sample_lib fresh_session ''user'' ''pass'' False
          (scripted [answer [(''type'', JStr ''auth'')],
                     answer [(''type'', JStr ''auth''), (''error'', JStr ''auth_failure'')]] []))
     \<in> {Inl RiotAuthenticationError, Inl RiotRatelimitError,
        Inl RiotUnknownErrorTypeError, Inl RiotUnknownResponseTypeError}
   \<and> attrs (fst (snd (authorize sample_lib fresh_session ''user'' ''pass'' False
          (scripted [answer [(''type'', JStr ''auth'')],
                     answer [(''type'', JStr ''auth''), (''error'', JStr ''auth_failure'')]] []))))
     = attrs fresh_session"
proof -
  have h: "fst (authorize sample_lib fresh_session ''user'' ''pass'' False
          (scripted [answer [(''type'', JStr ''auth'')],
                     answer [(''type'', JStr ''auth''), (''error'', JStr ''auth_failure'')]] []))
     \<in> {Inl RiotAuthenticationError, Inl RiotRatelimitError,
        Inl RiotUnknownErrorTypeError, Inl RiotUnknownResponseTypeError}"
    by (simp add: run_auth_error(1))
  from authorize_credential_errors_keep_tokens[OF h]
  have c: "attrs (fst (snd (authorize sample_lib fresh_session ''user'' ''pass'' False
          (scripted [answer [(''type'', JStr ''auth'')],
                     answer [(''type'', JStr ''auth''), (''error'', JStr ''auth_failure'')]] []))))
     = attrs fresh_session"
    by (rule conjunct1)
  show ?thesis by (rule conjI[OF h c])
qed

section \<open>Two defects of the code\<close>

text \<open>
  C8. The multifactor code is rejected: the provider asks for credentials, then for a
  multifactor code, and answers the code with the error \<open>multifactor_attempt_failed\<close>.
  The run ends after these three requests with the token fields untouched, but with a
  \<open>NameError\<close>, since the exception class the code names does not exist; no error
  kind of its own tells the caller that the multifactor attempt failed.
\<close>

theorem multifactor_attempt_failed_is_NameError:
  "fst (authorize sample_lib fresh_session ''user'' ''pass'' False
          (scripted [answer [(''type'', JStr ''auth'')],
                     answer [(''type'', JStr ''multifactor'')],
                     answer [(''error'', JStr ''multifactor_attempt_failed'')]]
                    [''123456'']))
     = Inl (Python NameError)
   \<and> attrs (fst (snd (authorize sample_lib fresh_session ''user'' ''pass'' False
          (scripted [answer [(''type'', JStr ''auth'')],
                     answer [(''type'', JStr ''multifactor'')],
                     answer [(''error'', JStr ''multifactor_attempt_failed'')]]
                    [''123456'']))))
     = attrs fresh_session
   \<and> length (requests (snd (snd (authorize sample_lib fresh_session ''user'' ''pass'' False
          (scripted [answer [(''type'', JStr ''auth'')],
                     answer [(''type'', JStr ''multifactor'')],
                     answer [(''error'', JStr ''multifactor_attempt_failed'')]]
                    [''123456''])))))
     = 3"
  by (simp add: engine_defs)

text \<open>
  C6. A redirect URI with a parameter named \<open>extract_jwt\<close>, which is not an attribute of
  the session: instead of being dropped, the key collides with the keyword argument of
  the call of \<open>__update\<close>, and the token step raises \<open>TypeError\<close> before anything is set.
\<close>

theorem set_tokens_from_uri_reserved_key_raises:
  "RiotAuth_set_tokens_from_uri sample_lib fresh_session
      (redirect ''fragment'' ''http://localhost/redirect#access_token=a.e30.b&extract_jwt=1'')
     = (Inl TypeError, fresh_session)"
  by (simp add: engine_defs)

end
